theory Spec2Isabelle
  imports Complex_Main
begin

section \<open>The transcription service: a shallow embedding\<close>

text \<open>
  The service saves an uploaded audio file, probes it, runs vocal separation and then
  speech recognition on it, and answers with the text, the segments and the timings.
  The embedding follows \<^verbatim>\<open>routers.py\<close>, \<^verbatim>\<open>schemas.py\<close>,
  \<^verbatim>\<open>transcription_service.py\<close>, \<^verbatim>\<open>service_utils.py\<close>, \<^verbatim>\<open>settings.py\<close>
  and the exception handler of \<^verbatim>\<open>app.py\<close>.

  What the Python leaves to libraries is made explicit:
  \<^item> the filesystem is the set of paths that hold a file; \<^verbatim>\<open>Path.unlink()\<close> raises
    \<^verbatim>\<open>FileNotFoundError\<close> on a path that holds none (its default, \<^verbatim>\<open>missing_ok=False\<close>);
  \<^item> an exception is a value: a function that may raise returns \<open>Inl\<close> of it;
  \<^item> demucs, whisper, pydub, \<^verbatim>\<open>json.loads\<close>, \<^verbatim>\<open>uuid.uuid4\<close>, \<^verbatim>\<open>time.time\<close>,
    \<^verbatim>\<open>torch.cuda.is_available\<close> and the coercions of pydantic's lax mode are fields of
    an environment record: a theorem about an arbitrary environment holds for whatever
    they answer;
  \<^item> the log and the calls made to the two models are recorded in the state; a log
    record keeps its level and its event, not its keyword arguments;
  \<^item> writing a file succeeds, and a \<^verbatim>\<open>save_audio\<close> that raises leaves no file;
  \<^item> a float is the real number it stands for;
  \<^item> \<^verbatim>\<open>pool.apply_async(f, kwds).get()\<close> is the call of \<^verbatim>\<open>f\<close>: it returns what \<^verbatim>\<open>f\<close>
    returns and raises what \<^verbatim>\<open>f\<close> raises. The worker process shares the filesystem
    with the handler.
\<close>

subsection \<open>Values, exceptions and the state\<close>

type_synonym path = string

datatype pyfloat = Finite real | PosInf | NegInf | NaN

text \<open>What \<^verbatim>\<open>json.loads\<close> returns; an object is the list of its items.\<close>

datatype json =
    JNull
  | JBool bool
  | JInt int
  | JFloat pyfloat
  | JStr string
  | JArr "json list"
  | JObj "(string \<times> json) list"

datatype exc_class =
    JSONDecodeError
  | ValidationError
  | ValueError
  | TypeError
  | FileNotFoundError
  | CouldntDecodeError
  | OtherException string

text \<open>A Python exception that is not an \<^verbatim>\<open>HTTPException\<close>: its class and \<^verbatim>\<open>str(e)\<close>.\<close>

datatype pyexc = PyExc exc_class string

fun exc_str :: "pyexc \<Rightarrow> string" where
  "exc_str (PyExc c m) = m"

fun exc_class_of :: "pyexc \<Rightarrow> exc_class" where
  "exc_class_of (PyExc c m) = c"

text \<open>
  \<^verbatim>\<open>json.JSONDecodeError\<close> and pydantic's \<^verbatim>\<open>ValidationError\<close> are subclasses of
  \<^verbatim>\<open>ValueError\<close>.
\<close>

fun is_ValueError :: "exc_class \<Rightarrow> bool" where
  "is_ValueError JSONDecodeError = True"
| "is_ValueError ValidationError = True"
| "is_ValueError ValueError = True"
| "is_ValueError c = False"

text \<open>What a handler can raise: an \<^verbatim>\<open>HTTPException(status_code, detail)\<close> or anything else.\<close>

datatype exn = HTTPException int "(string \<times> string) list" | Py pyexc

datatype level = INFO | WARNING | ERROR

datatype call =
    CallSeparator string string path
  | CallTranscriber string string path

record world =
  fs :: "path set"
  logs :: "(level \<times> string) list"
  calls :: "call list"

definition log_event :: "level \<Rightarrow> string \<Rightarrow> world \<Rightarrow> world" where
  "log_event lv ev w = w\<lparr>logs := logs w @ [(lv, ev)]\<rparr>"

definition record_call :: "call \<Rightarrow> world \<Rightarrow> world" where
  "record_call c w = w\<lparr>calls := calls w @ [c]\<rparr>"

definition write_file :: "path \<Rightarrow> world \<Rightarrow> world" where
  "write_file p w = w\<lparr>fs := insert p (fs w)\<rparr>"

text \<open>\<^verbatim>\<open>Path.unlink()\<close>, as the source calls it: without \<^verbatim>\<open>missing_ok\<close>.\<close>

definition unlink :: "path \<Rightarrow> world \<Rightarrow> pyexc + world" where
  "unlink p w =
     (if p \<in> fs w then Inr (w\<lparr>fs := fs w - {p}\<rparr>)
      else Inl (PyExc FileNotFoundError
                 (''[Errno 2] No such file or directory: '' @ [CHR 0x27] @ p @ [CHR 0x27])))"

subsection \<open>Settings (settings.py)\<close>

record Settings =
  debug :: bool
  log_level :: string
  max_file_size_mb :: int
  supported_formats :: "string list"
  background_workers :: int
  temp_dir :: path
  request_timeout_sec :: int
  separator_model :: string

subsection \<open>Schemas (schemas.py)\<close>

record TranscriptionConfig =
  language_hint :: "string option"
  enable_separation :: bool
  diarize :: bool
  model_size :: string
  target_sr :: int

record PipelineInfo =
  separation :: "(string \<times> json) list"
  transcription :: "(string \<times> json) list"

record TranscriptionSegment =
  seg_start :: real
  seg_end :: real
  seg_text :: string

record TimingInfo =
  load :: int
  separation :: int
  transcription :: int
  total :: int

record TranscriptionResponse =
  request_id :: string
  duration_sec :: real
  sample_rate :: int
  pipeline :: PipelineInfo
  segments :: "TranscriptionSegment list"
  text' :: string
  language :: string
  timings_ms :: TimingInfo

subsection \<open>The environment\<close>

text \<open>The readings of \<^verbatim>\<open>time.time()\<close> during one request, in the order of the calls.\<close>

record readings =
  start_time :: real
  sep_stime :: real
  sep_etime :: real
  transcription_stime :: real
  load_stime :: real
  load_etime :: real
  transcription_etime :: real
  end_time :: real

record whisper_result =
  result_text :: string
  result_segments :: "(real \<times> real \<times> string) list"

record env =
  cuda_available :: bool
  uuid4 :: string
  now :: readings
  json_loads :: "string \<Rightarrow> pyexc + json"
  lax_str :: "json \<Rightarrow> string option"
  lax_bool :: "json \<Rightarrow> bool option"
  lax_int :: "json \<Rightarrow> int option"
  AudioSegment_from_file :: "path \<Rightarrow> pyexc + (int \<times> int)"
  separate_audio_file :: "string \<Rightarrow> string \<Rightarrow> path \<Rightarrow> pyexc option"
  save_audio :: "path \<Rightarrow> pyexc option"
  load_model :: "string \<Rightarrow> string \<Rightarrow> pyexc option"
  model_transcribe :: "string \<Rightarrow> string \<Rightarrow> path \<Rightarrow> pyexc + whisper_result"

record request =
  state_request_id :: "string option"
  filename :: "string option"
  content :: "nat list"
  config :: string

subsection \<open>Strings and numbers as Python prints them\<close>

definition lower_char :: "char \<Rightarrow> char" where
  "lower_char c =
     (let n = (of_char c :: nat) in if 65 \<le> n \<and> n \<le> 90 then char_of (n + 32) else c)"

definition lower :: "string \<Rightarrow> string" where
  "lower s = map lower_char s"

definition lstrip :: "char \<Rightarrow> string \<Rightarrow> string" where
  "lstrip c s = dropWhile (\<lambda>x. x = c) s"

fun split_on :: "char \<Rightarrow> string \<Rightarrow> string list" where
  "split_on c [] = [[]]"
| "split_on c (x # xs) =
     (if x = c then [] # split_on c xs
      else (case split_on c xs of [] \<Rightarrow> [[x]] | p # ps \<Rightarrow> (x # p) # ps))"

text \<open>\<^verbatim>\<open>PurePosixPath(s).name\<close>: the last component, empty and \<^verbatim>\<open>.\<close> components dropped.\<close>

definition path_name :: "string \<Rightarrow> string" where
  "path_name s =
     (case rev (filter (\<lambda>p. p \<noteq> [] \<and> p \<noteq> ''.'') (split_on (CHR ''/'') s)) of
        [] \<Rightarrow> []
      | p # ps \<Rightarrow> p)"

definition rfind :: "char \<Rightarrow> string \<Rightarrow> nat option" where
  "rfind c s =
     (case filter (\<lambda>i. s ! i = c) (rev [0..<length s]) of [] \<Rightarrow> None | i # js \<Rightarrow> Some i)"

text \<open>
  \<^verbatim>\<open>Path(s).suffix\<close>: from the last dot of the name on, unless that dot starts or ends
  the name.
\<close>

definition suffix :: "string \<Rightarrow> string" where
  "suffix s =
     (let name = path_name s in
      case rfind (CHR ''.'') name of
        None \<Rightarrow> []
      | Some i \<Rightarrow> if 0 < i \<and> i + 1 < length name then drop i name else [])"

text \<open>The \<^verbatim>\<open>/\<close> of pathlib: an absolute right operand replaces the left one.\<close>

definition path_join :: "path \<Rightarrow> string \<Rightarrow> path" where
  "path_join d n = (if n \<noteq> [] \<and> hd n = CHR ''/'' then n else d @ ''/'' @ n)"

fun str_nat :: "nat \<Rightarrow> string" where
  "str_nat n =
     (if n < 10 then [char_of (48 + n)] else str_nat (n div 10) @ [char_of (48 + n mod 10)])"

declare str_nat.simps [simp del]

definition str_int :: "int \<Rightarrow> string" where
  "str_int i = (if i < 0 then ''-'' @ str_nat (nat (- i)) else str_nat (nat i))"

definition round_half_even :: "real \<Rightarrow> int" where
  "round_half_even x =
     (let f = \<lfloor>x\<rfloor>; d = x - of_int f in
      if d < 1 / 2 then f else if 1 / 2 < d then f + 1 else if even f then f else f + 1)"

text \<open>The format \<^verbatim>\<open>:.1f\<close>, for the non-negative numbers it is used on.\<close>

definition format_1f :: "real \<Rightarrow> string" where
  "format_1f x =
     (let n = round_half_even (x * 10) in str_int (n div 10) @ ''.'' @ str_int (n mod 10))"

fun join :: "string \<Rightarrow> string list \<Rightarrow> string" where
  "join sep [] = []"
| "join sep [x] = x"
| "join sep (x # y # ys) = x @ sep @ join sep (y # ys)"

text \<open>\<^verbatim>\<open>str\<close> of a list of strings that hold no quote and no escape.\<close>

definition str_list :: "string list \<Rightarrow> string" where
  "str_list xs = ''['' @ join '', '' (map (\<lambda>s. [CHR 0x27] @ s @ [CHR 0x27]) xs) @ '']''"

text \<open>\<^verbatim>\<open>int(x)\<close> of a float: truncation towards zero.\<close>

definition py_int :: "real \<Rightarrow> int" where
  "py_int x = (if 0 \<le> x then \<lfloor>x\<rfloor> else \<lceil>x\<rceil>)"

subsection \<open>Validation (service\_utils.py)\<close>

definition validate_file_name_and_ext :: "Settings \<Rightarrow> string option \<Rightarrow> exn + string" where
  "validate_file_name_and_ext st file_name =
     (case file_name of
        None \<Rightarrow>
          Inl (HTTPException 400
                [(''error'', ''invalid_file''), (''detail'', ''No filename provided'')])
      | Some name \<Rightarrow>
          if name = [] then
            Inl (HTTPException 400
                  [(''error'', ''invalid_file''), (''detail'', ''No filename provided'')])
          else
            (let file_extension = lstrip (CHR ''.'') (lower (suffix name)) in
             if file_extension \<notin> set (supported_formats st) then
               Inl (HTTPException 400
                     [(''error'', ''invalid_format''),
                      (''detail'', ''Unsupported format: '' @ file_extension @ ''. Supported: ''
                          @ str_list (supported_formats st))])
             else Inr file_extension))"

definition validate_file_size :: "Settings \<Rightarrow> nat list \<Rightarrow> exn + int" where
  "validate_file_size st bytes =
     (let file_size = int (length bytes);
          max_size_bytes = max_file_size_mb st * 1024 * 1024 in
      if file_size > max_size_bytes then
        Inl (HTTPException 413
              [(''error'', ''file_too_large''),
               (''detail'', ''File size '' @ format_1f (of_int file_size / 1024 / 1024)
                   @ ''MB exceeds limit of '' @ str_int (max_file_size_mb st) @ ''MB'')])
      else Inr file_size)"

definition get_audio_duration_and_sample_rate :: "env \<Rightarrow> path \<Rightarrow> exn + (real \<times> int)" where
  "get_audio_duration_and_sample_rate e audio_path =
     (case AudioSegment_from_file e audio_path of
        Inr (len_ms, frame_rate) \<Rightarrow> Inr (of_int len_ms / 1000, frame_rate)
      | Inl ex \<Rightarrow>
          if exc_class_of ex = CouldntDecodeError then
            Inl (HTTPException 422 [(''error'', ''Unable to decode''), (''detail'', exc_str ex)])
          else Inl (Py ex))"

subsection \<open>The configuration (schemas.py)\<close>

text \<open>
  pydantic validates each field that the input gives. A value of the declared type is
  taken as it is; any other value goes through the coercion of lax mode, which accepts
  it as a value of the declared type or rejects it.
\<close>

definition validate_optional_str :: "env \<Rightarrow> json \<Rightarrow> string option option" where
  "validate_optional_str e v =
     (case v of JNull \<Rightarrow> Some None | JStr s \<Rightarrow> Some (Some s) | _ \<Rightarrow> map_option Some (lax_str e v))"

definition validate_str :: "env \<Rightarrow> json \<Rightarrow> string option" where
  "validate_str e v = (case v of JStr s \<Rightarrow> Some s | _ \<Rightarrow> lax_str e v)"

definition validate_bool :: "env \<Rightarrow> json \<Rightarrow> bool option" where
  "validate_bool e v = (case v of JBool b \<Rightarrow> Some b | _ \<Rightarrow> lax_bool e v)"

definition validate_int :: "env \<Rightarrow> json \<Rightarrow> int option" where
  "validate_int e v = (case v of JInt n \<Rightarrow> Some n | _ \<Rightarrow> lax_int e v)"

text \<open>A field the input leaves out takes its \<^verbatim>\<open>Field(default=...)\<close>.\<close>

definition field_value :: "(string \<times> json) list \<Rightarrow> string \<Rightarrow> 'a \<Rightarrow> (json \<Rightarrow> 'a option) \<Rightarrow> 'a option" where
  "field_value d k dflt validate = (case map_of d k of None \<Rightarrow> Some dflt | Some v \<Rightarrow> validate v)"

definition rejected :: "string \<Rightarrow> 'a option \<Rightarrow> string list" where
  "rejected k r = (case r of None \<Rightarrow> [k] | Some v \<Rightarrow> [])"

fun type_name :: "json \<Rightarrow> string" where
  "type_name JNull = ''NoneType''"
| "type_name (JBool b) = ''bool''"
| "type_name (JInt n) = ''int''"
| "type_name (JFloat x) = ''float''"
| "type_name (JStr s) = ''str''"
| "type_name (JArr xs) = ''list''"
| "type_name (JObj d) = ''dict''"

text \<open>
  \<^verbatim>\<open>cls(**json_dict)\<close>. What is not an object cannot be unpacked: a \<^verbatim>\<open>TypeError\<close>.
  The text of pydantic's report is shortened to the names of the rejected fields.
\<close>

definition from_dict :: "env \<Rightarrow> json \<Rightarrow> pyexc + TranscriptionConfig" where
  "from_dict e json_dict =
     (case json_dict of
        JObj d \<Rightarrow>
          (let lh = field_value d ''language_hint'' (Some ''en'') (validate_optional_str e);
               es = field_value d ''enable_separation'' True (validate_bool e);
               dz = field_value d ''diarize'' False (validate_bool e);
               ms = field_value d ''model_size'' ''small'' (validate_str e);
               sr = field_value d ''target_sr'' 16000 (validate_int e) in
           case lh of
             Some lh' \<Rightarrow>
               (case es of
                  Some es' \<Rightarrow>
                    (case dz of
                       Some dz' \<Rightarrow>
                         (case ms of
                            Some ms' \<Rightarrow>
                              (case sr of
                                 Some sr' \<Rightarrow>
                                   Inr \<lparr>language_hint = lh', enable_separation = es',
                                        diarize = dz', model_size = ms', target_sr = sr'\<rparr>
                               | None \<Rightarrow> Inl (PyExc ValidationError ''target_sr''))
                          | None \<Rightarrow>
                              Inl (PyExc ValidationError
                                    (join '', '' (''model_size'' # rejected ''target_sr'' sr))))
                     | None \<Rightarrow>
                         Inl (PyExc ValidationError
                               (join '', '' (''diarize'' # rejected ''model_size'' ms
                                  @ rejected ''target_sr'' sr))))
                | None \<Rightarrow>
                    Inl (PyExc ValidationError
                          (join '', '' (''enable_separation'' # rejected ''diarize'' dz
                             @ rejected ''model_size'' ms @ rejected ''target_sr'' sr))))
           | None \<Rightarrow>
               Inl (PyExc ValidationError
                     (join '', '' (''language_hint'' # rejected ''enable_separation'' es
                        @ rejected ''diarize'' dz @ rejected ''model_size'' ms
                        @ rejected ''target_sr'' sr))))
      | _ \<Rightarrow>
          Inl (PyExc TypeError
                (''argument after ** must be a mapping, not '' @ type_name json_dict)))"

definition from_json_string :: "env \<Rightarrow> string \<Rightarrow> world \<Rightarrow> (exn + TranscriptionConfig) \<times> world" where
  "from_json_string e json_string w =
     (case (case json_loads e json_string of Inl ex \<Rightarrow> Inl ex | Inr j \<Rightarrow> from_dict e j) of
        Inr transcription_config \<Rightarrow> (Inr transcription_config, w)
      | Inl ex \<Rightarrow>
          if is_ValueError (exc_class_of ex) then
            (Inl (HTTPException 400
                   [(''error'', ''invalid_config''),
                    (''detail'', ''Invalid JSON configuration: '' @ exc_str ex)]),
             log_event ERROR ''Invalid configuration'' w)
          else (Inl (Py ex), w))"

text \<open>
  The declaration of the class once more, as data: the names of the fields, the JSON
  values that already have the declared type of a field (\<^verbatim>\<open>Optional[str]\<close>, \<^verbatim>\<open>bool\<close>,
  \<^verbatim>\<open>bool\<close>, \<^verbatim>\<open>str\<close>, \<^verbatim>\<open>int\<close>), and the default of each field.
\<close>

definition field_names :: "string list" where
  "field_names =
     [''language_hint'', ''enable_separation'', ''diarize'', ''model_size'', ''target_sr'']"

definition declared_type :: "string \<Rightarrow> json \<Rightarrow> bool" where
  "declared_type k v =
     (if k = ''language_hint'' then (case v of JNull \<Rightarrow> True | JStr s \<Rightarrow> True | _ \<Rightarrow> False)
      else if k = ''enable_separation'' \<or> k = ''diarize'' then
        (case v of JBool b \<Rightarrow> True | _ \<Rightarrow> False)
      else if k = ''model_size'' then (case v of JStr s \<Rightarrow> True | _ \<Rightarrow> False)
      else if k = ''target_sr'' then (case v of JInt n \<Rightarrow> True | _ \<Rightarrow> False)
      else False)"

definition field_default :: "string \<Rightarrow> json option" where
  "field_default k =
     (if k = ''language_hint'' then Some (JStr ''en'')
      else if k = ''enable_separation'' then Some (JBool True)
      else if k = ''diarize'' then Some (JBool False)
      else if k = ''model_size'' then Some (JStr ''small'')
      else if k = ''target_sr'' then Some (JInt 16000)
      else None)"

text \<open>pydantic's \<^verbatim>\<open>model_dump\<close>: the five fields, in the order of their declaration.\<close>

definition model_dump :: "TranscriptionConfig \<Rightarrow> (string \<times> json) list" where
  "model_dump c =
     [(''language_hint'', (case language_hint c of None \<Rightarrow> JNull | Some s \<Rightarrow> JStr s)),
      (''enable_separation'', JBool (enable_separation c)),
      (''diarize'', JBool (diarize c)),
      (''model_size'', JStr (model_size c)),
      (''target_sr'', JInt (target_sr c))]"

definition get_segments_from_whisper_results :: "whisper_result \<Rightarrow> TranscriptionSegment list" where
  "get_segments_from_whisper_results result_dict =
     map (\<lambda>(s, e, t). \<lparr>seg_start = s, seg_end = e, seg_text = t\<rparr>) (result_segments result_dict)"

subsection \<open>The two stages (transcription\_service.py)\<close>

text \<open>
  \<^verbatim>\<open>separate_audio_file\<close> stands for building the demucs separator and running it.
  The vocals go to one fixed file of the temporary directory.
\<close>

definition separate_vocals :: "env \<Rightarrow> Settings \<Rightarrow> path \<Rightarrow> string \<Rightarrow> string \<Rightarrow> world \<Rightarrow> (pyexc + path) \<times> world" where
  "separate_vocals e st audio_fp model device w =
     (let w1 = record_call (CallSeparator model device audio_fp) w in
      case separate_audio_file e model device audio_fp of
        Some ex \<Rightarrow> (Inl ex, w1)
      | None \<Rightarrow>
          (let vocals_fp = path_join (temp_dir st) ''vocals.wav'' in
           case save_audio e vocals_fp of
             Some ex \<Rightarrow> (Inl ex, w1)
           | None \<Rightarrow> (Inr vocals_fp, write_file vocals_fp w1)))"

definition TranscriptionService_transcribe_audio :: "env \<Rightarrow> path \<Rightarrow> string \<Rightarrow> string \<Rightarrow> pyexc + (string \<times> TranscriptionSegment list \<times> real)" where
  "TranscriptionService_transcribe_audio e vocals_fp transcription_model device =
     (case load_model e transcription_model device of
        Some ex \<Rightarrow> Inl ex
      | None \<Rightarrow>
          (let load_time = load_etime (now e) - load_stime (now e) in
           case model_transcribe e transcription_model device vocals_fp of
             Inl ex \<Rightarrow> Inl ex
           | Inr result \<Rightarrow>
               Inr (result_text result, get_segments_from_whisper_results result, load_time)))"

subsection \<open>The pipeline and the handler (routers.py)\<close>

text \<open>\<^verbatim>\<open>str\<close> of an optional string inside an f-string.\<close>

definition str_optional :: "string option \<Rightarrow> string" where
  "str_optional x = (case x of None \<Rightarrow> ''None'' | Some s \<Rightarrow> s)"

text \<open>
  Lines 41 to 52 of \<^verbatim>\<open>transcribe_audio\<close>: the call of the separator inside
  \<^verbatim>\<open>try\<close>, its \<^verbatim>\<open>except Exception\<close>, and the path handed to the next stage.
  The flag \<^verbatim>\<open>enable_separation\<close> of the configuration is not read here.
\<close>

definition separation_stage :: "env \<Rightarrow> Settings \<Rightarrow> path \<Rightarrow> string \<Rightarrow> world \<Rightarrow> path \<times> world" where
  "separation_stage e st audio_fp device w =
     (case separate_vocals e st audio_fp (separator_model st) device w of
        (Inr vocals_fp, w') \<Rightarrow> (vocals_fp, w')
      | (Inl ex, w') \<Rightarrow>
          (audio_fp,
           log_event WARNING ''Vocal separation failed, skipping vocal separation step.'' w'))"

text \<open>
  The worker's function. The transcription service is called without a device, so with
  its default \<^verbatim>\<open>cuda\<close>. \<^verbatim>\<open>TranscriptionResponse\<close> declares \<^verbatim>\<open>language: str\<close>, so
  a configuration whose \<^verbatim>\<open>language_hint\<close> is \<^verbatim>\<open>None\<close> fails its validation.
\<close>

definition transcribe_audio :: "env \<Rightarrow> Settings \<Rightarrow> path \<Rightarrow> TranscriptionConfig \<Rightarrow> string \<Rightarrow> real \<Rightarrow> int \<Rightarrow> world \<Rightarrow> (exn + TranscriptionResponse) \<times> world" where
  "transcribe_audio e st audio_fp transcription_config rid duration rate w =
     (let device = (if cuda_available e then ''cuda'' else ''cpu'');
          w1 = log_event INFO (device @ '' will be used.'') w;
          (vocals_fp, w2) = separation_stage e st audio_fp device w1;
          sep_time = sep_etime (now e) - sep_stime (now e);
          transcription_model =
            model_size transcription_config @ ''.''
              @ str_optional (language_hint transcription_config);
          w3 = record_call (CallTranscriber transcription_model ''cuda'' vocals_fp) w2 in
      case TranscriptionService_transcribe_audio e vocals_fp transcription_model ''cuda'' of
        Inl ex \<Rightarrow> (Inl (Py ex), w3)
      | Inr (txt, segs, load_time) \<Rightarrow>
          (let transcription_time = transcription_etime (now e) - transcription_stime (now e);
               total_time = py_int (end_time (now e) - start_time (now e));
               timing_info =
                 \<lparr>load = py_int (load_time * 1000),
                  separation = py_int (sep_time * 1000),
                  transcription = py_int (transcription_time * 1000),
                  total = total_time * 1000\<rparr>;
               pipeline_info =
                 \<lparr>PipelineInfo.separation =
                    [(''enables'', JBool (enable_separation transcription_config)),
                     (''method'', JStr ''demucs'')],
                  PipelineInfo.transcription =
                    [(''model'', JStr (model_size transcription_config))]\<rparr> in
           case language_hint transcription_config of
             None \<Rightarrow> (Inl (Py (PyExc ValidationError ''language'')), w3)
           | Some lang \<Rightarrow>
               (case unlink vocals_fp w3 of
                  Inl ex \<Rightarrow> (Inl (Py ex), w3)
                | Inr w4 \<Rightarrow>
                    (Inr \<lparr>request_id = rid, duration_sec = duration, sample_rate = rate,
                          pipeline = pipeline_info, segments = segs, text' = txt,
                          language = lang, timings_ms = timing_info\<rparr>,
                     log_event INFO ''Transcription completed successfully'' w4))))"

text \<open>
  Lines 127 to 156 of \<^verbatim>\<open>transcribe\<close>: the \<^verbatim>\<open>try\<close> around the worker's call, its two
  \<^verbatim>\<open>except\<close> clauses and its \<^verbatim>\<open>finally\<close>. An exception raised by the \<^verbatim>\<open>finally\<close>
  clause replaces the pending result.
\<close>

definition pipeline_block :: "env \<Rightarrow> Settings \<Rightarrow> path \<Rightarrow> TranscriptionConfig \<Rightarrow> string \<Rightarrow> real \<Rightarrow> int \<Rightarrow> world \<Rightarrow> (exn + TranscriptionResponse) \<times> world" where
  "pipeline_block e st audio_fp transcription_config rid duration rate w =
     (let (outcome, w1) =
            (case transcribe_audio e st audio_fp transcription_config rid duration rate w of
               (Inr transcription_response, w') \<Rightarrow> (Inr transcription_response, w')
             | (Inl (HTTPException c d), w') \<Rightarrow> (Inl (HTTPException c d), w')
             | (Inl (Py ex), w') \<Rightarrow>
                 (Inl (HTTPException 500
                        [(''request_id'', rid), (''error'', ''processing_failed''),
                         (''detail'', exc_str ex)]),
                  log_event ERROR ''Transcription failed'' w')) in
      case unlink audio_fp w1 of
        Inl ex \<Rightarrow> (Inl (Py ex), w1)
      | Inr w2 \<Rightarrow> (outcome, w2))"

definition request_id_of :: "request \<Rightarrow> string" where
  "request_id_of rq = (case state_request_id rq of None \<Rightarrow> ''unknown'' | Some r \<Rightarrow> r)"

definition transcribe :: "env \<Rightarrow> Settings \<Rightarrow> request \<Rightarrow> world \<Rightarrow> (exn + TranscriptionResponse) \<times> world" where
  "transcribe e st rq w =
     (let rid = request_id_of rq in
      case from_json_string e (config rq) w of
        (Inl ex, w1) \<Rightarrow> (Inl ex, w1)
      | (Inr transcription_config, w1) \<Rightarrow>
          (case validate_file_name_and_ext st (filename rq) of
             Inl ex \<Rightarrow> (Inl ex, w1)
           | Inr file_extension \<Rightarrow>
               (case validate_file_size st (content rq) of
                  Inl ex \<Rightarrow> (Inl ex, w1)
                | Inr file_size \<Rightarrow>
                    (let w2 = log_event INFO ''File validation passed'' w1;
                         audio_fp = path_join (temp_dir st)
                                      (rid @ ''_'' @ uuid4 e @ ''.'' @ file_extension);
                         w3 = write_file audio_fp w2 in
                     case get_audio_duration_and_sample_rate e audio_fp of
                       Inl ex \<Rightarrow> (Inl ex, w3)
                     | Inr (audio_duration, rate) \<Rightarrow>
                         pipeline_block e st audio_fp transcription_config rid
                           audio_duration rate w3))))"

subsection \<open>What the caller receives (app.py)\<close>

datatype body =
    ResultBody TranscriptionResponse
  | DetailBody "(string \<times> string) list"
  | ErrorBody "(string \<times> string) list"

record http_response =
  status_code :: int
  body :: body

definition global_exception_handler :: "Settings \<Rightarrow> string \<Rightarrow> pyexc \<Rightarrow> world \<Rightarrow> http_response \<times> world" where
  "global_exception_handler st rid exc w =
     (\<lparr>status_code = 500,
       body = ErrorBody
         [(''request_id'', rid), (''error'', ''Internal server error''),
          (''detail'', if debug st then exc_str exc else ''An unexpected error occurred'')]\<rparr>,
      log_event ERROR ''Unhandled exception'' w)"

text \<open>
  The route as the application serves it: a result is a 200, an \<^verbatim>\<open>HTTPException\<close> is
  answered by the framework with its status and \<^verbatim>\<open>{"detail": detail}\<close>, any other
  exception goes to the handler above.
\<close>

definition post_transcribe :: "env \<Rightarrow> Settings \<Rightarrow> request \<Rightarrow> world \<Rightarrow> http_response \<times> world" where
  "post_transcribe e st rq w =
     (case transcribe e st rq w of
        (Inr r, w') \<Rightarrow> (\<lparr>status_code = 200, body = ResultBody r\<rparr>, w')
      | (Inl (HTTPException c d), w') \<Rightarrow> (\<lparr>status_code = c, body = DetailBody d\<rparr>, w')
      | (Inl (Py ex), w') \<Rightarrow> global_exception_handler st (request_id_of rq) ex w')"

text \<open>The correlation identifier an error body carries, if it carries one.\<close>

definition error_request_id :: "http_response \<Rightarrow> string option" where
  "error_request_id r =
     (case body r of
        ResultBody t \<Rightarrow> None
      | DetailBody d \<Rightarrow> map_of d ''request_id''
      | ErrorBody d \<Rightarrow> map_of d ''request_id'')"

subsection \<open>Concrete runs\<close>

text \<open>The defaults of \<^verbatim>\<open>settings.py\<close>, with a temporary directory of its own.\<close>

definition default_settings :: Settings where
  "default_settings =
     \<lparr>debug = False, log_level = ''INFO'', max_file_size_mb = 100,
      supported_formats = [''wav'', ''mp3'', ''m4a'', ''flac'', ''ogg''],
      background_workers = 4, temp_dir = ''/srv/tmp'', request_timeout_sec = 300,
      separator_model = ''htdemucs_ft''\<rparr>"

text \<open>
  What pydantic documents for a \<^verbatim>\<open>bool\<close> field in lax mode: the numbers 0 and 1 and,
  in any letter case, the strings below.
\<close>

definition pydantic_lax_bool :: "json \<Rightarrow> bool option" where
  "pydantic_lax_bool v =
     (case v of
        JInt n \<Rightarrow> if n = 0 then Some False else if n = 1 then Some True else None
      | JFloat x \<Rightarrow>
          if x = Finite 0 then Some False else if x = Finite 1 then Some True else None
      | JStr s \<Rightarrow>
          if lower s \<in> set [''0'', ''off'', ''f'', ''false'', ''n'', ''no''] then Some False
          else if lower s \<in> set [''1'', ''on'', ''t'', ''true'', ''y'', ''yes''] then Some True
          else None
      | _ \<Rightarrow> None)"

text \<open>
  An environment in which every library call succeeds: a five-second recording at
  16 kHz, one segment, a run of seven eighths of a second on a machine with CUDA. Its
  clock readings are numbers that a binary float holds exactly.
\<close>

definition quiet_env :: env where
  \<open>quiet_env =
     \<lparr>cuda_available = True, uuid4 = ''6f1c2a9e'',
      now = \<lparr>start_time = 100, sep_stime = 100, sep_etime = 201 / 2,
              transcription_stime = 201 / 2, load_stime = 201 / 2,
              load_etime = 805 / 8, transcription_etime = 807 / 8,
              end_time = 807 / 8\<rparr>,
      json_loads =
        (\<lambda>s. if s = ''{}'' then Inr (JObj [])
             else if s = ''{"enable_separation": false}''
             then Inr (JObj [(''enable_separation'', JBool False)])
             else Inl (PyExc JSONDecodeError ''Expecting value: line 1 column 1 (char 0)'')),
      lax_str = (\<lambda>v. None), lax_bool = pydantic_lax_bool, lax_int = (\<lambda>v. None),
      AudioSegment_from_file = (\<lambda>p. Inr (5000, 16000)),
      separate_audio_file = (\<lambda>m d p. None),
      save_audio = (\<lambda>p. None),
      load_model = (\<lambda>m d. None),
      model_transcribe =
        (\<lambda>m d p. Inr \<lparr>result_text = ''hello world'',
                        result_segments = [(0, 5, ''hello world'')]\<rparr>)\<rparr>\<close>

definition separation_fails_env :: env where
  "separation_fails_env =
     quiet_env\<lparr>separate_audio_file :=
       (\<lambda>m d p. Some (PyExc (OtherException ''RuntimeError'') ''out of memory''))\<rparr>"

definition transcription_fails_env :: env where
  "transcription_fails_env =
     quiet_env\<lparr>model_transcribe :=
       (\<lambda>m d p. Inl (PyExc (OtherException ''RuntimeError'') ''decoding failed''))\<rparr>"

definition undecodable_env :: env where
  "undecodable_env =
     quiet_env\<lparr>AudioSegment_from_file :=
       (\<lambda>p. Inl (PyExc CouldntDecodeError ''Decoding failed. ffmpeg returned error code: 1''))\<rparr>"

text \<open>
  The same run on a machine whose wall clock is set back by more than two seconds
  before the last reading: \<^verbatim>\<open>time.time()\<close> then returns a second and a half less than
  its first reading.
\<close>

definition clock_steps_back_env :: env where
  "clock_steps_back_env = quiet_env\<lparr>now := (now quiet_env)\<lparr>end_time := 197 / 2\<rparr>\<rparr>"

definition no_files :: world where
  "no_files = \<lparr>fs = {}, logs = [], calls = []\<rparr>"

definition wav_request :: request where
  "wav_request =
     \<lparr>state_request_id = Some ''req-1'', filename = Some ''speech.wav'',
      content = [82, 73, 70, 70], config = ''{}''\<rparr>"

definition flag_off_request :: request where
  \<open>flag_off_request = wav_request\<lparr>config := ''{"enable_separation": false}''\<rparr>\<close>

text \<open>A second request, with its own identifier and its own random component.\<close>

definition second_env :: env where
  "second_env = quiet_env\<lparr>uuid4 := ''0d9b7e44''\<rparr>"

definition second_request :: request where
  "second_request =
     wav_request\<lparr>state_request_id := Some ''req-2'', filename := Some ''talk.mp3''\<rparr>"

definition text_request :: request where
  "text_request = wav_request\<lparr>filename := Some ''notes.txt''\<rparr>"

section \<open>Properties\<close>

lemmas run_defs = post_transcribe_def transcribe_def pipeline_block_def transcribe_audio_def
  separation_stage_def separate_vocals_def TranscriptionService_transcribe_audio_def
  from_json_string_def from_dict_def field_value_def validate_file_name_and_ext_def
  validate_file_size_def get_audio_duration_and_sample_rate_def unlink_def write_file_def
  log_event_def record_call_def request_id_of_def path_join_def suffix_def path_name_def
  rfind_def lower_def lower_char_def lstrip_def global_exception_handler_def
  get_segments_from_whisper_results_def py_int_def str_optional_def validate_optional_str_def
  validate_str_def validate_bool_def validate_int_def rejected_def error_request_id_def Let_def

lemmas scenario_defs = quiet_env_def separation_fails_env_def transcription_fails_env_def
  undecodable_env_def clock_steps_back_env_def
  default_settings_def no_files_def wav_request_def flag_off_request_def second_env_def
  second_request_def text_request_def

subsection \<open>Releasing a temporary file\<close>

text \<open>
  Claim C8 says that releasing a temporary path is idempotent: a second release of a
  path whose file is already gone succeeds without an error. The code releases with
  \<^verbatim>\<open>Path.unlink()\<close>, which raises on an absent file. Whatever the path and the state:
  after the file has been written, the first release succeeds and the second one raises
  \<^verbatim>\<open>FileNotFoundError\<close>.
\<close>

theorem unlink_twice_raises:
  "(case unlink p (write_file p w) of Inl ex \<Rightarrow> Inl ex | Inr w1 \<Rightarrow> unlink p w1) =
     Inl (PyExc FileNotFoundError
           (''[Errno 2] No such file or directory: '' @ [CHR 0x27] @ p @ [CHR 0x27]))"
  by (simp add: unlink_def write_file_def)

subsection \<open>A run whose separation fails\<close>

text \<open>
  Claim C1 says that a request whose separation stage raises still completes with
  status 200. On the code the run of such a request goes as the claim says up to the
  worker's return: the separator is called, the warning is logged, the transcriber
  receives the uploaded file. The worker then unlinks the path it transcribed, which is
  the upload itself, and the \<^verbatim>\<open>finally\<close> clause of the handler unlinks the upload
  again: \<^verbatim>\<open>FileNotFoundError\<close> replaces the response and the caller receives the 500
  of the application's exception handler.
\<close>

theorem degraded_run_answers_500:
  "post_transcribe separation_fails_env default_settings wav_request no_files =
     (\<lparr>status_code = 500,
       body = ErrorBody [(''request_id'', ''req-1''), (''error'', ''Internal server error''),
                         (''detail'', ''An unexpected error occurred'')]\<rparr>,
      \<lparr>fs = {},
       logs = [(INFO, ''File validation passed''), (INFO, ''cuda will be used.''),
               (WARNING, ''Vocal separation failed, skipping vocal separation step.''),
               (INFO, ''Transcription completed successfully''),
               (ERROR, ''Unhandled exception'')],
       calls = [CallSeparator ''htdemucs_ft'' ''cuda'' ''/srv/tmp/req-1_6f1c2a9e.wav'',
                CallTranscriber ''small.en'' ''cuda'' ''/srv/tmp/req-1_6f1c2a9e.wav'']\<rparr>)"
  by (simp add: run_defs scenario_defs)

subsection \<open>The flag that enables separation\<close>

text \<open>
  Claim C2 says that the separator is invoked only when \<^verbatim>\<open>enable_separation\<close> is true.
  The pipeline never reads the flag. A request whose configuration sets it to false is
  answered with a 200, and on its way the separator is called on the upload and the
  transcriber receives the separated vocals, not the upload.
\<close>

theorem separation_runs_with_flag_off:
  "status_code (fst (post_transcribe quiet_env default_settings flag_off_request no_files)) = 200 \<and>
   calls (snd (post_transcribe quiet_env default_settings flag_off_request no_files)) =
     [CallSeparator ''htdemucs_ft'' ''cuda'' ''/srv/tmp/req-1_6f1c2a9e.wav'',
      CallTranscriber ''small.en'' ''cuda'' ''/srv/tmp/vocals.wav'']"
  by (simp add: run_defs scenario_defs)

subsection \<open>Temporary files after a request\<close>

text \<open>
  Claim C3 says that no temporary file of a request remains once it has completed, on
  any exit path. When separation succeeds and transcription raises, the worker leaves
  before its \<^verbatim>\<open>unlink\<close>: the caller receives a 500 and the file of separated vocals is
  still there. And when the upload cannot be decoded, the 422 is raised before the
  \<^verbatim>\<open>try\<close> whose \<^verbatim>\<open>finally\<close> releases the upload: the saved upload is still there.
\<close>

theorem vocals_file_left_behind:
  "status_code (fst (post_transcribe transcription_fails_env default_settings wav_request no_files)) = 500 \<and>
   fs (snd (post_transcribe transcription_fails_env default_settings wav_request no_files)) =
     {''/srv/tmp/vocals.wav''} \<and>
   status_code (fst (post_transcribe undecodable_env default_settings wav_request no_files)) = 422 \<and>
   fs (snd (post_transcribe undecodable_env default_settings wav_request no_files)) =
     {''/srv/tmp/req-1_6f1c2a9e.wav''}"
  by (simp add: run_defs scenario_defs insert_Diff_if)

subsection \<open>The paths of two requests\<close>

text \<open>
  Claim C5 says that no temporary path is shared by two requests. The uploads of two
  requests are saved under different names, but both runs write their separated vocals
  to the same file, \<^verbatim>\<open>vocals.wav\<close> of the temporary directory, and transcribe that
  file.
\<close>

theorem two_requests_share_vocals_path:
  "calls (snd (post_transcribe quiet_env default_settings wav_request no_files)) =
     [CallSeparator ''htdemucs_ft'' ''cuda'' ''/srv/tmp/req-1_6f1c2a9e.wav'',
      CallTranscriber ''small.en'' ''cuda'' ''/srv/tmp/vocals.wav''] \<and>
   calls (snd (post_transcribe second_env default_settings second_request no_files)) =
     [CallSeparator ''htdemucs_ft'' ''cuda'' ''/srv/tmp/req-2_0d9b7e44.mp3'',
      CallTranscriber ''small.en'' ''cuda'' ''/srv/tmp/vocals.wav'']"
  by (simp add: run_defs scenario_defs)

subsection \<open>The separation metadata of a response\<close>

text \<open>
  Claim C6 says that the separation metadata of a response holds a key \<^verbatim>\<open>enabled\<close>
  that reflects the requested configuration. Every response the worker builds, after a
  failed separation or not, holds the requested flag under the key \<^verbatim>\<open>enables\<close> and
  has no key \<^verbatim>\<open>enabled\<close>.
\<close>

theorem separation_key_is_enables:
  "(case fst (transcribe_audio e st audio_fp c rid d sr w) of
      Inl ex \<Rightarrow> True
    | Inr r \<Rightarrow>
        map_of (PipelineInfo.separation (pipeline r)) ''enabled'' = None \<and>
        map_of (PipelineInfo.separation (pipeline r)) ''enables'' =
          Some (JBool (enable_separation c)))"
  by (simp add: transcribe_audio_def Let_def split: prod.splits sum.splits option.splits)

theorem separation_key_is_enables_witness:
  "\<exists>r. fst (transcribe_audio separation_fails_env default_settings
              ''/srv/tmp/req-1_6f1c2a9e.wav''
              \<lparr>language_hint = Some ''en'', enable_separation = True, diarize = False,
                 model_size = ''small'', target_sr = 16000\<rparr>
              ''req-1'' 5 16000 (write_file ''/srv/tmp/req-1_6f1c2a9e.wav'' no_files)) = Inr r \<and>
       map_of (PipelineInfo.separation (pipeline r)) ''enabled'' = None \<and>
       map_of (PipelineInfo.separation (pipeline r)) ''enables'' = Some (JBool True)"
proof -
  let ?run = "transcribe_audio separation_fails_env default_settings
                ''/srv/tmp/req-1_6f1c2a9e.wav''
                \<lparr>language_hint = Some ''en'', enable_separation = True, diarize = False,
                   model_size = ''small'', target_sr = 16000\<rparr>
                ''req-1'' 5 16000 (write_file ''/srv/tmp/req-1_6f1c2a9e.wav'' no_files)"
  have "\<exists>r. fst ?run = Inr r"
    by (simp add: run_defs scenario_defs)
  then obtain r where r: "fst ?run = Inr r" ..
  from separation_key_is_enables [where e = separation_fails_env and st = default_settings
      and audio_fp = "''/srv/tmp/req-1_6f1c2a9e.wav''"
      and c = "\<lparr>language_hint = Some ''en'', enable_separation = True, diarize = False,
                 model_size = ''small'', target_sr = 16000\<rparr>"
      and rid = "''req-1''" and d = 5 and sr = 16000
      and w = "write_file ''/srv/tmp/req-1_6f1c2a9e.wav'' no_files"] r
  have "map_of (PipelineInfo.separation (pipeline r)) ''enabled'' = None \<and>
        map_of (PipelineInfo.separation (pipeline r)) ''enables'' = Some (JBool True)"
    by simp
  with r show ?thesis by blast
qed

subsection \<open>The total of the timings\<close>

lemma transcribe_audio_total:
  assumes "fst (transcribe_audio e st audio_fp c rid d sr w) = Inr r"
  shows "total (timings_ms r) = py_int (end_time (now e) - start_time (now e)) * 1000"
  using assms
  by (auto simp: transcribe_audio_def Let_def split: prod.splits sum.splits option.splits)

lemma quiet_run_timings:
  "\<exists>r. fst (transcribe_audio quiet_env default_settings ''/srv/tmp/req-1_6f1c2a9e.wav''
              \<lparr>language_hint = Some ''en'', enable_separation = True, diarize = False,
                 model_size = ''small'', target_sr = 16000\<rparr>
              ''req-1'' 5 16000 (write_file ''/srv/tmp/req-1_6f1c2a9e.wav'' no_files)) = Inr r \<and>
       total (timings_ms r) = 0 \<and> load (timings_ms r) = 125 \<and>
       TimingInfo.separation (timings_ms r) = 500 \<and>
       TimingInfo.transcription (timings_ms r) = 375"
  by (simp add: run_defs scenario_defs)

lemma stepped_run_answers:
  "\<exists>r. fst (transcribe_audio clock_steps_back_env default_settings
              ''/srv/tmp/req-1_6f1c2a9e.wav''
              \<lparr>language_hint = Some ''en'', enable_separation = True, diarize = False,
                 model_size = ''small'', target_sr = 16000\<rparr>
              ''req-1'' 5 16000 (write_file ''/srv/tmp/req-1_6f1c2a9e.wav'' no_files)) = Inr r"
  by (simp add: run_defs scenario_defs)

lemma truncation_sign:
  fixes x :: real
  shows "(0 \<le> 1000 * (if 0 \<le> x then \<lfloor>x\<rfloor> else \<lceil>x\<rceil>)) = (- 1 < x)"
    and "(1000 * (if 0 \<le> x then \<lfloor>x\<rfloor> else \<lceil>x\<rceil>) = 0) = (- 1 < x \<and> x < 1)"
proof -
  show "(0 \<le> 1000 * (if 0 \<le> x then \<lfloor>x\<rfloor> else \<lceil>x\<rceil>)) = (- 1 < x)"
  proof (cases "0 \<le> x")
    case True
    then have "0 \<le> \<lfloor>x\<rfloor>" by simp
    with True show ?thesis by simp
  next
    case False
    then have "(0 \<le> \<lceil>x\<rceil>) = (- 1 < x)" by (simp add: le_ceiling_iff)
    with False show ?thesis by simp
  qed
  show "(1000 * (if 0 \<le> x then \<lfloor>x\<rfloor> else \<lceil>x\<rceil>) = 0) = (- 1 < x \<and> x < 1)"
  proof (cases "0 \<le> x")
    case True
    then have "(\<lfloor>x\<rfloor> = 0) = (x < 1)" by (simp add: floor_eq_iff)
    with True show ?thesis by simp
  next
    case False
    then have "(\<lceil>x\<rceil> = 0) = (- 1 < x)" by (simp add: ceiling_eq_iff)
    with False show ?thesis by simp
  qed
qed

text \<open>
  Claim C10, as amended: in every response, \<^verbatim>\<open>timings_ms.total\<close> is the elapsed time
  (the last reading of the clock minus the first) truncated towards zero to whole seconds
  and then multiplied by 1000. The total is therefore always a multiple of 1000; it is
  non-negative exactly when the elapsed time is more than minus one second, so whenever
  the clock has not been set back between the two readings; and it is 0 exactly when the
  elapsed time lies strictly between minus one second and one second. So the total can
  be less than the sum of the three other timings: some run has such a response.
\<close>

theorem total_is_whole_seconds:
  assumes run: "fst (transcribe_audio e st audio_fp c rid d sr w) = Inr r"
  shows "total (timings_ms r) =
           1000 * (if 0 \<le> end_time (now e) - start_time (now e)
                   then \<lfloor>end_time (now e) - start_time (now e)\<rfloor>
                   else \<lceil>end_time (now e) - start_time (now e)\<rceil>) \<and>
         1000 dvd total (timings_ms r) \<and>
         (0 \<le> total (timings_ms r) \<longleftrightarrow> - 1 < end_time (now e) - start_time (now e)) \<and>
         (total (timings_ms r) = 0 \<longleftrightarrow>
            - 1 < end_time (now e) - start_time (now e) \<and>
            end_time (now e) - start_time (now e) < 1) \<and>
         (\<exists>e' st' audio_fp' c' rid' d' sr' w' r'.
            fst (transcribe_audio e' st' audio_fp' c' rid' d' sr' w') = Inr r' \<and>
            total (timings_ms r') <
              load (timings_ms r') + TimingInfo.separation (timings_ms r')
                + TimingInfo.transcription (timings_ms r'))"
proof -
  let ?elapsed = "end_time (now e) - start_time (now e)"
  let ?seconds = "if 0 \<le> ?elapsed then \<lfloor>?elapsed\<rfloor> else \<lceil>?elapsed\<rceil>"
  from transcribe_audio_total [OF run]
  have eq: "total (timings_ms r) = 1000 * ?seconds"
    by (simp add: py_int_def)
  then have mult: "1000 dvd total (timings_ms r)"
    by simp
  from eq truncation_sign(1) [of ?elapsed]
  have sign: "0 \<le> total (timings_ms r) \<longleftrightarrow> - 1 < ?elapsed"
    by simp
  from eq truncation_sign(2) [of ?elapsed]
  have zero: "total (timings_ms r) = 0 \<longleftrightarrow> - 1 < ?elapsed \<and> ?elapsed < 1"
    by simp
  from quiet_run_timings obtain r0 where
    "fst (transcribe_audio quiet_env default_settings ''/srv/tmp/req-1_6f1c2a9e.wav''
              \<lparr>language_hint = Some ''en'', enable_separation = True, diarize = False,
                 model_size = ''small'', target_sr = 16000\<rparr>
              ''req-1'' 5 16000 (write_file ''/srv/tmp/req-1_6f1c2a9e.wav'' no_files)) = Inr r0"
    and "total (timings_ms r0) <
              load (timings_ms r0) + TimingInfo.separation (timings_ms r0)
                + TimingInfo.transcription (timings_ms r0)"
    by auto
  then have ex: "\<exists>e' st' audio_fp' c' rid' d' sr' w' r'.
            fst (transcribe_audio e' st' audio_fp' c' rid' d' sr' w') = Inr r' \<and>
            total (timings_ms r') <
              load (timings_ms r') + TimingInfo.separation (timings_ms r')
                + TimingInfo.transcription (timings_ms r')"
    by blast
  from eq mult sign zero ex show ?thesis
    by blast
qed

theorem total_is_whole_seconds_witness:
  "(\<exists>r. fst (transcribe_audio quiet_env default_settings ''/srv/tmp/req-1_6f1c2a9e.wav''
              \<lparr>language_hint = Some ''en'', enable_separation = True, diarize = False,
                 model_size = ''small'', target_sr = 16000\<rparr>
              ''req-1'' 5 16000 (write_file ''/srv/tmp/req-1_6f1c2a9e.wav'' no_files)) = Inr r \<and>
        total (timings_ms r) = 0 \<and> 1000 dvd total (timings_ms r)) \<and>
   (\<exists>r. fst (transcribe_audio clock_steps_back_env default_settings
              ''/srv/tmp/req-1_6f1c2a9e.wav''
              \<lparr>language_hint = Some ''en'', enable_separation = True, diarize = False,
                 model_size = ''small'', target_sr = 16000\<rparr>
              ''req-1'' 5 16000 (write_file ''/srv/tmp/req-1_6f1c2a9e.wav'' no_files)) = Inr r \<and>
        total (timings_ms r) = - 1000 \<and> 1000 dvd total (timings_ms r))"
proof -
  have quiet: "end_time (now quiet_env) - start_time (now quiet_env) = 7 / 8"
    by (simp add: quiet_env_def)
  have stepped:
    "end_time (now clock_steps_back_env) - start_time (now clock_steps_back_env) = - (3 / 2)"
    by (simp add: clock_steps_back_env_def quiet_env_def)
  from quiet_run_timings obtain r where
    run: "fst (transcribe_audio quiet_env default_settings ''/srv/tmp/req-1_6f1c2a9e.wav''
              \<lparr>language_hint = Some ''en'', enable_separation = True, diarize = False,
                 model_size = ''small'', target_sr = 16000\<rparr>
              ''req-1'' 5 16000 (write_file ''/srv/tmp/req-1_6f1c2a9e.wav'' no_files)) = Inr r"
    by auto
  from stepped_run_answers obtain r' where
    run': "fst (transcribe_audio clock_steps_back_env default_settings
              ''/srv/tmp/req-1_6f1c2a9e.wav''
              \<lparr>language_hint = Some ''en'', enable_separation = True, diarize = False,
                 model_size = ''small'', target_sr = 16000\<rparr>
              ''req-1'' 5 16000 (write_file ''/srv/tmp/req-1_6f1c2a9e.wav'' no_files)) = Inr r'"
    by auto
  from total_is_whole_seconds [OF run, unfolded quiet]
  have first: "total (timings_ms r) = 0 \<and> 1000 dvd total (timings_ms r)"
    by simp
  from total_is_whole_seconds [OF run', unfolded stepped]
  have second: "total (timings_ms r') = - 1000 \<and> 1000 dvd total (timings_ms r')"
    by simp
  from run first run' second show ?thesis
    by blast
qed

text \<open>
  Claim C10 as stated fails where it says that the total is always non-negative: when the
  wall clock is set back during the run so that the last reading is a second and a half
  below the first, the run still answers, and its total is minus 1000. (Truncation
  towards zero gives minus one second; rounding down would have given minus two.)
\<close>

theorem total_is_negative_after_clock_step:
  "fst (transcribe_audio clock_steps_back_env default_settings ''/srv/tmp/req-1_6f1c2a9e.wav''
         \<lparr>language_hint = Some ''en'', enable_separation = True, diarize = False,
            model_size = ''small'', target_sr = 16000\<rparr>
         ''req-1'' 5 16000 (write_file ''/srv/tmp/req-1_6f1c2a9e.wav'' no_files)) =
     Inr \<lparr>request_id = ''req-1'', duration_sec = 5, sample_rate = 16000,
          pipeline =
            \<lparr>PipelineInfo.separation =
               [(''enables'', JBool True), (''method'', JStr ''demucs'')],
             PipelineInfo.transcription = [(''model'', JStr ''small'')]\<rparr>,
          segments = [\<lparr>seg_start = 0, seg_end = 5, seg_text = ''hello world''\<rparr>],
          text' = ''hello world'', language = ''en'',
          timings_ms = \<lparr>load = 125, separation = 500, transcription = 375, total = - 1000\<rparr>\<rparr>"
  by (simp add: run_defs scenario_defs insert_Diff_if)

subsection \<open>Parsing a configuration and writing it back\<close>

lemma from_dict_fields:
  assumes "from_dict e (JObj d) = Inr c"
  shows "Some (language_hint c) =
           field_value d ''language_hint'' (Some ''en'') (validate_optional_str e)"
    and "Some (enable_separation c) = field_value d ''enable_separation'' True (validate_bool e)"
    and "Some (diarize c) = field_value d ''diarize'' False (validate_bool e)"
    and "Some (model_size c) = field_value d ''model_size'' ''small'' (validate_str e)"
    and "Some (target_sr c) = field_value d ''target_sr'' 16000 (validate_int e)"
  using assms
  by (auto simp: from_dict_def Let_def split: option.splits)

lemma model_dump_keys: "map fst (model_dump c) = field_names"
  by (simp add: model_dump_def field_names_def)

lemma model_dump_lookup:
  "map_of (model_dump c) ''language_hint'' =
     Some (case language_hint c of None \<Rightarrow> JNull | Some s \<Rightarrow> JStr s)"
  "map_of (model_dump c) ''enable_separation'' = Some (JBool (enable_separation c))"
  "map_of (model_dump c) ''diarize'' = Some (JBool (diarize c))"
  "map_of (model_dump c) ''model_size'' = Some (JStr (model_size c))"
  "map_of (model_dump c) ''target_sr'' = Some (JInt (target_sr c))"
  by (simp_all add: model_dump_def)



lemma declared_type_cases:
  "declared_type ''language_hint'' v = (v = JNull \<or> (\<exists>s. v = JStr s))"
  "declared_type ''enable_separation'' v = (\<exists>b. v = JBool b)"
  "declared_type ''diarize'' v = (\<exists>b. v = JBool b)"
  "declared_type ''model_size'' v = (\<exists>s. v = JStr s)"
  "declared_type ''target_sr'' v = (\<exists>n. v = JInt n)"
  by (cases v; simp add: declared_type_def)+

lemma field_default_cases:
  "field_default ''language_hint'' = Some (JStr ''en'')"
  "field_default ''enable_separation'' = Some (JBool True)"
  "field_default ''diarize'' = Some (JBool False)"
  "field_default ''model_size'' = Some (JStr ''small'')"
  "field_default ''target_sr'' = Some (JInt 16000)"
  by (simp_all add: field_default_def)

lemma absent_field_default:
  assumes ok: "from_dict e (JObj d) = Inr c"
  shows "\<forall>k\<in>set field_names. map_of d k = None \<longrightarrow> map_of (model_dump c) k = field_default k"
  using from_dict_fields [OF ok]
  by (auto simp add: field_names_def field_value_def model_dump_lookup field_default_cases)

lemma typed_field_kept:
  assumes ok: "from_dict e (JObj d) = Inr c"
  shows "\<forall>k\<in>set field_names. \<forall>v. map_of d k = Some v \<and> declared_type k v \<longrightarrow>
           map_of (model_dump c) k = Some v"
  using from_dict_fields [OF ok]
  by (auto simp add: field_names_def field_value_def model_dump_lookup declared_type_cases
        validate_optional_str_def validate_bool_def validate_str_def validate_int_def)

lemma dump_parses_back: "from_dict e (JObj (model_dump c)) = Inr c"
  by (cases "language_hint c")
    (simp_all add: from_dict_def field_value_def model_dump_lookup validate_optional_str_def
      validate_bool_def validate_str_def validate_int_def)

text \<open>
  Claim C9, as amended: for every configuration object that constructs successfully,
  the re-serialised configuration has exactly the five fields; a field the input leaves
  out has its default (\<^verbatim>\<open>en\<close>, true, false, \<^verbatim>\<open>small\<close>, 16000); a field the input gives
  with a value of the declared type comes back as that value; unknown fields of the
  input are dropped; and parsing the re-serialised object gives the same configuration
  again. A value of another type that lax mode accepts is not covered: it comes back
  coerced, not as it was given.
\<close>

theorem config_round_trip:
  assumes ok: "from_dict e (JObj d) = Inr c"
  shows "map fst (model_dump c) = field_names \<and>
         (\<forall>k\<in>set field_names. map_of d k = None \<longrightarrow> map_of (model_dump c) k = field_default k) \<and>
         (\<forall>k\<in>set field_names. \<forall>v. map_of d k = Some v \<and> declared_type k v \<longrightarrow>
            map_of (model_dump c) k = Some v) \<and>
         from_dict e (JObj (model_dump c)) = Inr c"
  using model_dump_keys absent_field_default [OF ok] typed_field_kept [OF ok] dump_parses_back
  by blast

theorem config_round_trip_witness:
  "from_dict quiet_env
     (JObj [(''language_hint'', JStr ''es''), (''model_size'', JStr ''large''),
            (''comment'', JStr ''first take'')]) =
     Inr \<lparr>language_hint = Some ''es'', enable_separation = True, diarize = False,
          model_size = ''large'', target_sr = 16000\<rparr> \<and>
   declared_type ''language_hint'' (JStr ''es'') \<and>
   map_of (model_dump \<lparr>language_hint = Some ''es'', enable_separation = True, diarize = False,
          model_size = ''large'', target_sr = 16000\<rparr>) ''language_hint'' = Some (JStr ''es'') \<and>
   map_of (model_dump \<lparr>language_hint = Some ''es'', enable_separation = True, diarize = False,
          model_size = ''large'', target_sr = 16000\<rparr>) ''target_sr'' = Some (JInt 16000) \<and>
   map fst (model_dump \<lparr>language_hint = Some ''es'', enable_separation = True, diarize = False,
          model_size = ''large'', target_sr = 16000\<rparr>) =
     [''language_hint'', ''enable_separation'', ''diarize'', ''model_size'', ''target_sr''] \<and>
   from_dict quiet_env
     (JObj (model_dump \<lparr>language_hint = Some ''es'', enable_separation = True, diarize = False,
          model_size = ''large'', target_sr = 16000\<rparr>)) =
     Inr \<lparr>language_hint = Some ''es'', enable_separation = True, diarize = False,
          model_size = ''large'', target_sr = 16000\<rparr>"
proof -
  let ?d = "[(''language_hint'', JStr ''es''), (''model_size'', JStr ''large''),
            (''comment'', JStr ''first take'')]"
  let ?c = "\<lparr>language_hint = Some ''es'', enable_separation = True, diarize = False,
          model_size = ''large'', target_sr = 16000\<rparr>"
  have ok: "from_dict quiet_env (JObj ?d) = Inr ?c"
    by (simp add: run_defs)
  note round_trip = config_round_trip [OF ok]
  have typed: "declared_type ''language_hint'' (JStr ''es'')"
    by (simp add: declared_type_def)
  have given: "map_of ?d ''language_hint'' = Some (JStr ''es'')"
    by simp
  have absent: "map_of ?d ''target_sr'' = None"
    by simp
  have names: "''language_hint'' \<in> set field_names" "''target_sr'' \<in> set field_names"
    by (simp_all add: field_names_def)
  from round_trip names(1) given typed
  have kept: "map_of (model_dump ?c) ''language_hint'' = Some (JStr ''es'')"
    by blast
  from round_trip names(2) absent
  have "map_of (model_dump ?c) ''target_sr'' = field_default ''target_sr''"
    by blast
  then have dflt: "map_of (model_dump ?c) ''target_sr'' = Some (JInt 16000)"
    by (simp add: field_default_def)
  from round_trip have keys: "map fst (model_dump ?c) =
      [''language_hint'', ''enable_separation'', ''diarize'', ''model_size'', ''target_sr'']"
    by (simp add: field_names_def)
  from round_trip have reparsed: "from_dict quiet_env (JObj (model_dump ?c)) = Inr ?c"
    by blast
  from ok typed kept dflt keys reparsed show ?thesis
    by blast
qed

text \<open>
  Claim C9 as stated fails on an input that constructs only through a coercion: the
  object \<^verbatim>\<open>{"enable_separation": "no"}\<close> is accepted, and its field comes back as the
  boolean false, not as the string that was given.
\<close>

theorem coerced_flag_is_not_preserved:
  "(case from_dict quiet_env (JObj [(''enable_separation'', JStr ''no'')]) of
      Inl ex \<Rightarrow> False
    | Inr c \<Rightarrow>
        map_of (model_dump c) ''enable_separation'' = Some (JBool False) \<and>
        map_of (model_dump c) ''enable_separation''
          \<noteq> map_of [(''enable_separation'', JStr ''no'')] ''enable_separation'')"
  by (simp add: run_defs model_dump_def pydantic_lax_bool_def quiet_env_def)

subsection \<open>A run whose transcription fails\<close>

text \<open>
  The path the separation stage hands on does not depend on the state it runs in, and
  the stage removes no file.
\<close>

lemma separation_stage_path:
  "fst (separation_stage e st a dev w) = fst (separation_stage e st a dev w')"
  by (simp add: separation_stage_def separate_vocals_def Let_def split: option.splits)

lemma separation_stage_keeps:
  "p \<in> fs w \<Longrightarrow> p \<in> fs (snd (separation_stage e st a dev w))"
  by (simp add: separation_stage_def separate_vocals_def Let_def write_file_def log_event_def
      record_call_def split: option.splits)

lemma transcribe_audio_stage_failure:
  assumes fail: "TranscriptionService_transcribe_audio e
             (fst (separation_stage e st a (if cuda_available e then ''cuda'' else ''cpu'') w0))
             (model_size c @ ''.'' @ str_optional (language_hint c)) ''cuda'' = Inl ex"
    and saved: "p \<in> fs w"
  shows "fst (transcribe_audio e st a c rid d sr w) = Inl (Py ex) \<and>
         p \<in> fs (snd (transcribe_audio e st a c rid d sr w))"
proof -
  obtain dev where dev: "dev = (if cuda_available e then ''cuda'' else ''cpu'')" by simp
  obtain w1 where w1: "w1 = log_event INFO (dev @ '' will be used.'') w" by simp
  obtain q w2 where sep: "separation_stage e st a dev w1 = (q, w2)"
    by (cases "separation_stage e st a dev w1")
  from fail dev separation_stage_path [of e st a dev w0 w1] sep
  have fail': "TranscriptionService_transcribe_audio e q
             (model_size c @ ''.'' @ str_optional (language_hint c)) ''cuda'' = Inl ex"
    by simp
  from saved w1 have "p \<in> fs w1" by (simp add: log_event_def)
  from separation_stage_keeps [OF this, of e st a dev] sep have kept: "p \<in> fs w2"
    by simp
  have "transcribe_audio e st a c rid d sr w =
          (Inl (Py ex),
           record_call (CallTranscriber (model_size c @ ''.'' @ str_optional (language_hint c))
             ''cuda'' q) w2)"
    unfolding transcribe_audio_def dev [symmetric] Let_def w1 [symmetric] sep
    using fail' by simp
  with kept show ?thesis by (simp add: record_call_def)
qed

lemma pipeline_block_stage_failure:
  assumes fail: "TranscriptionService_transcribe_audio e
             (fst (separation_stage e st a (if cuda_available e then ''cuda'' else ''cpu'') w0))
             (model_size c @ ''.'' @ str_optional (language_hint c)) ''cuda'' = Inl ex"
    and saved: "a \<in> fs w"
  shows "fst (pipeline_block e st a c rid d sr w) =
           Inl (HTTPException 500
                 [(''request_id'', rid), (''error'', ''processing_failed''),
                  (''detail'', exc_str ex)])"
proof -
  obtain x w' where run: "transcribe_audio e st a c rid d sr w = (x, w')"
    by (cases "transcribe_audio e st a c rid d sr w")
  with transcribe_audio_stage_failure [OF fail saved, of rid d sr]
  have "x = Inl (Py ex)" and "a \<in> fs w'" by simp_all
  with run show ?thesis
    by (simp add: pipeline_block_def unlink_def log_event_def)
qed

lemma from_json_string_ok:
  "fst (from_json_string e s w) = Inr c \<Longrightarrow> from_json_string e s w = (Inr c, w)"
  by (auto simp: from_json_string_def split: sum.splits if_splits)

text \<open>
  Claim C4: a request that passes validation and decoding, and whose transcription
  stage raises, gets no response object. The exception is not swallowed: the caller
  receives a 500 whose body holds the request's correlation identifier, the category
  \<^verbatim>\<open>processing_failed\<close> and the text of the exception. This holds whether the
  separation before it succeeded or failed; the last hypothesis says that the
  transcription service raises on the path the separation stage hands to it.
\<close>

theorem transcription_failure_is_processing_failed:
  assumes cfg: "fst (from_json_string e (config rq) w) = Inr c"
    and ext: "validate_file_name_and_ext st (filename rq) = Inr ext"
    and size: "validate_file_size st (content rq) = Inr n"
    and path: "audio_fp = path_join (temp_dir st) (request_id_of rq @ ''_'' @ uuid4 e @ ''.'' @ ext)"
    and probe: "get_audio_duration_and_sample_rate e audio_fp = Inr (d, sr)"
    and fail: "TranscriptionService_transcribe_audio e
             (fst (separation_stage e st audio_fp
                     (if cuda_available e then ''cuda'' else ''cpu'') w))
             (model_size c @ ''.'' @ str_optional (language_hint c)) ''cuda'' = Inl ex"
  shows "fst (post_transcribe e st rq w) =
           \<lparr>status_code = 500,
            body = DetailBody
              [(''request_id'', request_id_of rq), (''error'', ''processing_failed''),
               (''detail'', exc_str ex)]\<rparr>"
proof -
  let ?w3 = "write_file audio_fp (log_event INFO ''File validation passed'' w)"
  have saved: "audio_fp \<in> fs ?w3" by (simp add: write_file_def)
  from from_json_string_ok [OF cfg] ext size path probe
  have "transcribe e st rq w = pipeline_block e st audio_fp c (request_id_of rq) d sr ?w3"
    by (simp add: transcribe_def Let_def)
  with pipeline_block_stage_failure [OF fail saved, of "request_id_of rq" d sr]
  have "fst (transcribe e st rq w) =
           Inl (HTTPException 500
                 [(''request_id'', request_id_of rq), (''error'', ''processing_failed''),
                  (''detail'', exc_str ex)])"
    by simp
  then show ?thesis
    by (cases "transcribe e st rq w") (simp add: post_transcribe_def)
qed

theorem transcription_failure_is_processing_failed_witness:
  "fst (from_json_string transcription_fails_env (config wav_request) no_files) =
     Inr \<lparr>language_hint = Some ''en'', enable_separation = True, diarize = False,
          model_size = ''small'', target_sr = 16000\<rparr> \<and>
   validate_file_name_and_ext default_settings (filename wav_request) = Inr ''wav'' \<and>
   validate_file_size default_settings (content wav_request) = Inr 4 \<and>
   get_audio_duration_and_sample_rate transcription_fails_env ''/srv/tmp/req-1_6f1c2a9e.wav'' =
     Inr (5, 16000) \<and>
   TranscriptionService_transcribe_audio transcription_fails_env
     (fst (separation_stage transcription_fails_env default_settings
             ''/srv/tmp/req-1_6f1c2a9e.wav'' ''cuda'' no_files))
     ''small.en'' ''cuda'' = Inl (PyExc (OtherException ''RuntimeError'') ''decoding failed'') \<and>
   fst (post_transcribe transcription_fails_env default_settings wav_request no_files) =
     \<lparr>status_code = 500,
      body = DetailBody
        [(''request_id'', ''req-1''), (''error'', ''processing_failed''),
         (''detail'', ''decoding failed'')]\<rparr>"
proof -
  let ?e = transcription_fails_env
  let ?c = "\<lparr>language_hint = Some ''en'', enable_separation = True, diarize = False,
          model_size = ''small'', target_sr = 16000\<rparr>"
  let ?ex = "PyExc (OtherException ''RuntimeError'') ''decoding failed''"
  have cfg: "fst (from_json_string ?e (config wav_request) no_files) = Inr ?c"
    by (simp add: run_defs scenario_defs)
  have ext: "validate_file_name_and_ext default_settings (filename wav_request) = Inr ''wav''"
    by (simp add: run_defs scenario_defs)
  have size: "validate_file_size default_settings (content wav_request) = Inr 4"
    by (simp add: run_defs scenario_defs)
  have path: "''/srv/tmp/req-1_6f1c2a9e.wav'' =
      path_join (temp_dir default_settings)
        (request_id_of wav_request @ ''_'' @ uuid4 ?e @ ''.'' @ ''wav'')"
    by (simp add: run_defs scenario_defs)
  have probe: "get_audio_duration_and_sample_rate ?e ''/srv/tmp/req-1_6f1c2a9e.wav'' = Inr (5, 16000)"
    by (simp add: run_defs scenario_defs)
  have cuda: "(if cuda_available ?e then ''cuda'' else ''cpu'') = ''cuda''"
    by (simp add: scenario_defs)
  have fail: "TranscriptionService_transcribe_audio ?e
     (fst (separation_stage ?e default_settings ''/srv/tmp/req-1_6f1c2a9e.wav''
             (if cuda_available ?e then ''cuda'' else ''cpu'') no_files))
     (model_size ?c @ ''.'' @ str_optional (language_hint ?c)) ''cuda'' = Inl ?ex"
    by (simp add: run_defs scenario_defs)
  have rid: "request_id_of wav_request = ''req-1''"
    by (simp add: run_defs scenario_defs)
  from transcription_failure_is_processing_failed [OF cfg ext size path probe fail] rid
  have "fst (post_transcribe ?e default_settings wav_request no_files) =
     \<lparr>status_code = 500,
      body = DetailBody
        [(''request_id'', ''req-1''), (''error'', ''processing_failed''),
         (''detail'', ''decoding failed'')]\<rparr>"
    by simp
  moreover from fail cuda have "TranscriptionService_transcribe_audio ?e
     (fst (separation_stage ?e default_settings ''/srv/tmp/req-1_6f1c2a9e.wav'' ''cuda'' no_files))
     ''small.en'' ''cuda'' = Inl ?ex"
    by (simp add: str_optional_def)
  ultimately show ?thesis using cfg ext size probe by simp
qed

subsection \<open>Error bodies and the correlation identifier\<close>

lemma from_json_string_error:
  assumes "fst (from_json_string e s w) = Inl (HTTPException code det)"
  shows "code = 400 \<and> map_of det ''request_id'' = None"
  using assms
  by (auto simp: from_json_string_def split: sum.splits if_splits)

lemma validate_file_name_and_ext_error:
  assumes "validate_file_name_and_ext st f = Inl x"
  shows "\<exists>det. x = HTTPException 400 det \<and> map_of det ''request_id'' = None"
  using assms
  by (auto simp: validate_file_name_and_ext_def Let_def split: option.splits if_splits)

lemma validate_file_size_error:
  assumes "validate_file_size st b = Inl x"
  shows "\<exists>det. x = HTTPException 413 det \<and> map_of det ''request_id'' = None"
  using assms
  by (auto simp: validate_file_size_def Let_def split: if_splits)

lemma get_audio_duration_and_sample_rate_error:
  assumes "get_audio_duration_and_sample_rate e p = Inl (HTTPException code det)"
  shows "code = 422 \<and> map_of det ''request_id'' = None"
  using assms
  by (auto simp: get_audio_duration_and_sample_rate_def split: sum.splits if_splits)

lemma transcribe_audio_no_http:
  "fst (transcribe_audio e st a c rid d sr w) \<noteq> Inl (HTTPException code det)"
  by (auto simp: transcribe_audio_def Let_def split: prod.splits sum.splits option.splits)

lemma pipeline_block_error:
  assumes "fst (pipeline_block e st a c rid d sr w) = Inl (HTTPException code det)"
  shows "code = 500 \<and> map_of det ''request_id'' = Some rid"
proof -
  obtain x w' where run: "transcribe_audio e st a c rid d sr w = (x, w')"
    by (cases "transcribe_audio e st a c rid d sr w")
  with transcribe_audio_no_http [of e st a c rid d sr w]
  have "\<forall>code' det'. x \<noteq> Inl (HTTPException code' det')" by simp
  with assms run show ?thesis
    by (auto simp: pipeline_block_def split: sum.splits exn.splits)
qed

lemma transcribe_error:
  assumes "fst (transcribe e st rq w) = Inl (HTTPException code det)"
  shows "(code = 500 \<and> map_of det ''request_id'' = Some (request_id_of rq)) \<or>
         (code \<in> {400, 413, 422} \<and> map_of det ''request_id'' = None)"
proof (cases "from_json_string e (config rq) w")
  case (Pair r1 w1)
  show ?thesis
  proof (cases r1)
    case (Inl x)
    with Pair assms from_json_string_error [of e "config rq" w code det] show ?thesis
      by (simp add: transcribe_def Let_def)
  next
    case cfg: (Inr c)
    show ?thesis
    proof (cases "validate_file_name_and_ext st (filename rq)")
      case (Inl x)
      with Pair cfg assms validate_file_name_and_ext_error [of st "filename rq" x] show ?thesis
        by (auto simp: transcribe_def Let_def)
    next
      case ext: (Inr ext)
      show ?thesis
      proof (cases "validate_file_size st (content rq)")
        case (Inl x)
        with Pair cfg ext assms validate_file_size_error [of st "content rq" x] show ?thesis
          by (auto simp: transcribe_def Let_def)
      next
        case size: (Inr n)
        let ?p = "path_join (temp_dir st) (request_id_of rq @ ''_'' @ uuid4 e @ ''.'' @ ext)"
        show ?thesis
        proof (cases "get_audio_duration_and_sample_rate e ?p")
          case (Inl x)
          with Pair cfg ext size assms
            get_audio_duration_and_sample_rate_error [of e ?p code det]
          show ?thesis
            by (simp add: transcribe_def Let_def)
        next
          case (Inr dr)
          with Pair cfg ext size assms
            pipeline_block_error [of e st ?p c "request_id_of rq" "fst dr" "snd dr"
              "write_file ?p (log_event INFO ''File validation passed'' w1)" code det]
          show ?thesis
            by (simp add: transcribe_def Let_def split: prod.splits)
        qed
      qed
    qed
  qed
qed

text \<open>
  Which answers carry the correlation identifier: every answer of the route is a 200
  with a result, or a 500 whose body holds the request's correlation identifier (a
  failed pipeline run and any unhandled exception), or a 400, 413 or 422 whose body
  holds an error category and a detail but no correlation identifier (the validation
  and decode errors).
\<close>

theorem error_bodies_and_request_id:
  "(status_code (fst (post_transcribe e st rq w)) = 200 \<and>
      (\<exists>t. body (fst (post_transcribe e st rq w)) = ResultBody t)) \<or>
   (status_code (fst (post_transcribe e st rq w)) = 500 \<and>
      error_request_id (fst (post_transcribe e st rq w)) = Some (request_id_of rq)) \<or>
   (status_code (fst (post_transcribe e st rq w)) \<in> {400, 413, 422} \<and>
      error_request_id (fst (post_transcribe e st rq w)) = None)"
proof (cases "transcribe e st rq w")
  case (Pair x w')
  show ?thesis
  proof (cases x)
    case (Inr r)
    with Pair show ?thesis by (simp add: post_transcribe_def)
  next
    case (Inl ex)
    show ?thesis
    proof (cases ex)
      case (Py pe)
      with Pair Inl show ?thesis
        by (simp add: post_transcribe_def global_exception_handler_def error_request_id_def)
    next
      case (HTTPException code det)
      with Pair Inl transcribe_error [of e st rq w code det] show ?thesis
        by (auto simp: post_transcribe_def error_request_id_def)
    qed
  qed
qed

text \<open>
  Claim C7 says that every error response, the validation errors included, holds the
  request's correlation identifier in its body. The 500 of a failed pipeline run and the
  500 of the exception handler do; a validation error does not: a file named
  \<^verbatim>\<open>notes.txt\<close> is rejected with a 400 whose body has the keys \<^verbatim>\<open>error\<close> and
  \<^verbatim>\<open>detail\<close> only.
\<close>

theorem validation_error_lacks_request_id:
  "status_code (fst (post_transcribe quiet_env default_settings text_request no_files)) = 400 \<and>
   body (fst (post_transcribe quiet_env default_settings text_request no_files)) =
     DetailBody
       [(''error'', ''invalid_format''),
        (''detail'', ''Unsupported format: txt. Supported: ''
           @ [CHR 0x5B, CHR 0x27] @ ''wav'' @ [CHR 0x27] @ '', '' @ [CHR 0x27] @ ''mp3'' @ [CHR 0x27] 
           @ '', '' @ [CHR 0x27] @ ''m4a'' @ [CHR 0x27] @ '', '' @ [CHR 0x27] @ ''flac'' @ [CHR 0x27]
           @ '', '' @ [CHR 0x27] @ ''ogg'' @ [CHR 0x27, CHR 0x5D])] \<and>
   error_request_id (fst (post_transcribe quiet_env default_settings text_request no_files)) = None"
  by (simp add: run_defs scenario_defs str_list_def)

end
